theory Spec2Isabelle
  imports Main
begin

section \<open>Python values and built-ins used by app.py\<close>

text \<open>
  The values that \<^verbatim>\<open>response.json()\<close> can produce, which are also the values the
  global \<^verbatim>\<open>token\<close> and the local \<^verbatim>\<open>data\<close> range over. \<open>JNull\<close> is Python's
  \<^verbatim>\<open>None\<close>, so "absence" and a parsed \<^verbatim>\<open>null\<close> body are the same value, as in the
  source. A \<^verbatim>\<open>dict\<close> is the list of its items in insertion order; lookup is \<open>map_of\<close>.
  JSON numbers with a fraction or an exponent (Python floats) are outside the model.
\<close>

datatype json =
    JNull
  | JBool bool
  | JInt int
  | JStr string
  | JList "json list"
  | JDict "(string \<times> json) list"

text \<open>
  The subclasses of \<^verbatim>\<open>Exception\<close> that the code can meet. The first four come out of
  httpx (\<^verbatim>\<open>client.get\<close>, \<^verbatim>\<open>client.post\<close>, \<^verbatim>\<open>raise_for_status\<close>, \<^verbatim>\<open>response.json\<close>),
  the last three out of subscripting, iterating and attribute access on a value of
  the wrong shape.
\<close>

datatype py_exception =
    TransportError
  | TimeoutException
  | HTTPStatusError int
  | JSONDecodeError
  | KeyError string
  | TypeError
  | AttributeError

definition bind_exc :: "py_exception + 'a \<Rightarrow> ('a \<Rightarrow> py_exception + 'b) \<Rightarrow> py_exception + 'b" where
  "bind_exc m f = (case m of Inl e \<Rightarrow> Inl e | Inr v \<Rightarrow> f v)"

text \<open>\<^verbatim>\<open>try: ... except Exception: return None\<close> around a body that returns a value.\<close>

definition except_return_None :: "py_exception + json \<Rightarrow> py_exception + json" where
  "except_return_None r = (case r of Inl e \<Rightarrow> Inr JNull | Inr v \<Rightarrow> Inr v)"

text \<open>\<^verbatim>\<open>bool(v)\<close>, as taken by \<^verbatim>\<open>not data\<close>.\<close>

fun py_truthy :: "json \<Rightarrow> bool" where
  "py_truthy JNull = False"
| "py_truthy (JBool b) = b"
| "py_truthy (JInt i) = (i \<noteq> 0)"
| "py_truthy (JStr s) = (s \<noteq> [])"
| "py_truthy (JList xs) = (xs \<noteq> [])"
| "py_truthy (JDict kvs) = (kvs \<noteq> [])"

text \<open>\<^verbatim>\<open>v == n\<close> for an integer literal \<open>n\<close>; \<^verbatim>\<open>True == 1\<close> and \<^verbatim>\<open>False == 0\<close> in Python.\<close>

fun py_eq_int :: "json \<Rightarrow> int \<Rightarrow> bool" where
  "py_eq_int (JInt i) n = (i = n)"
| "py_eq_int (JBool b) n = ((if b then 1 else 0) = n)"
| "py_eq_int v n = False"

text \<open>\<^verbatim>\<open>v[key]\<close> with a string key: only a dict can be subscripted by a string.\<close>

fun py_getitem :: "json \<Rightarrow> string \<Rightarrow> py_exception + json" where
  "py_getitem (JDict kvs) key = (case map_of kvs key of None \<Rightarrow> Inl (KeyError key) | Some v \<Rightarrow> Inr v)"
| "py_getitem v key = Inl TypeError"

text \<open>\<^verbatim>\<open>v.get(key)\<close>: only a dict has the method; a missing key gives \<^verbatim>\<open>None\<close>.\<close>

fun py_get :: "json \<Rightarrow> string \<Rightarrow> py_exception + json" where
  "py_get (JDict kvs) key = (case map_of kvs key of None \<Rightarrow> Inr JNull | Some v \<Rightarrow> Inr v)"
| "py_get v key = Inl AttributeError"

text \<open>
  \<^verbatim>\<open>for item in v\<close>: a list yields its elements, a dict its keys, a string its
  characters; the other values are not iterable.
\<close>

fun py_iter :: "json \<Rightarrow> py_exception + json list" where
  "py_iter (JList xs) = Inr xs"
| "py_iter (JDict kvs) = Inr (map (\<lambda>kv. JStr (fst kv)) kvs)"
| "py_iter (JStr s) = Inr (map (\<lambda>c. JStr [c]) s)"
| "py_iter v = Inl TypeError"

text \<open>\<^verbatim>\<open>str(n)\<close> for an integer: decimal digits, with a minus sign below zero.\<close>

definition digit_char :: "nat \<Rightarrow> char" where
  "digit_char d = ''0123456789'' ! d"

function show_nat :: "nat \<Rightarrow> string" where
  "show_nat n = (if n < 10 then [digit_char n] else show_nat (n div 10) @ [digit_char (n mod 10)])"
  by pat_completeness auto
termination
  by (relation "measure id") auto

declare show_nat.simps [simp del]

definition show_int :: "int \<Rightarrow> string" where
  "show_int i = (if i < 0 then CHR ''-'' # show_nat (nat (- i)) else show_nat (nat i))"

text \<open>\<^verbatim>\<open>sep.join(xs)\<close>.\<close>

fun py_join :: "string \<Rightarrow> string list \<Rightarrow> string" where
  "py_join sep [] = []"
| "py_join sep [x] = x"
| "py_join sep (x # y # ys) = x @ sep @ py_join sep (y # ys)"

section \<open>The environment: what lies outside app.py\<close>

datatype http_method = GET | POST

record http_request =
  req_method :: http_method
  req_url :: string
  req_headers :: "(string \<times> string) list"
  req_json :: "json option"
  req_timeout :: nat

text \<open>
  A response as the code reads it: the status code and what \<^verbatim>\<open>response.json()\<close> makes
  of the body (\<open>None\<close> when the body is not JSON).
\<close>

record http_response =
  status_code :: int
  json_body :: "json option"

text \<open>
  \<open>http_send\<close> is \<^verbatim>\<open>httpx.AsyncClient\<close> together with the remote API: a request either
  raises (network error, timeout) or is answered. \<open>py_repr\<close> is Python's \<^verbatim>\<open>repr\<close> on
  lists and dicts, \<open>getenv\<close> is \<^verbatim>\<open>os.getenv\<close> after \<^verbatim>\<open>load_dotenv()\<close>.
\<close>

record env =
  http_send :: "http_request \<Rightarrow> py_exception + http_response"
  py_repr :: "json \<Rightarrow> string"
  getenv :: "string \<Rightarrow> string option"

text \<open>
  Modelled from the spec: \<^verbatim>\<open>Response.raise_for_status\<close> of httpx, which is not part of
  the repository. The spec's dispatcher succeeds on a 2xx status and fails on every
  other one.
\<close>

definition raise_for_status :: "http_response \<Rightarrow> py_exception + http_response" where
  "raise_for_status response =
     (if 200 \<le> status_code response \<and> status_code response \<le> 299 then Inr response
      else Inl (HTTPStatusError (status_code response)))"

definition response_json :: "http_response \<Rightarrow> py_exception + json" where
  "response_json response =
     (case json_body response of None \<Rightarrow> Inl JSONDecodeError | Some v \<Rightarrow> Inr v)"

text \<open>
  \<^verbatim>\<open>format(v, '')\<close> inside an f-string, which is \<^verbatim>\<open>str(v)\<close> for these values.
\<close>

fun py_str :: "env \<Rightarrow> json \<Rightarrow> string" where
  "py_str E JNull = ''None''"
| "py_str E (JBool b) = (if b then ''True'' else ''False'')"
| "py_str E (JInt i) = show_int i"
| "py_str E (JStr s) = s"
| "py_str E v = py_repr E v"

section \<open>The program state\<close>

text \<open>
  \<open>token\<close> is the module's global. \<open>sent\<close> records the requests handed to httpx, oldest
  first; the program never reads it.
\<close>

record state =
  token :: json
  sent :: "http_request list"

definition client_send :: "env \<Rightarrow> http_request \<Rightarrow> state \<Rightarrow> (py_exception + http_response) \<times> state" where
  "client_send E req s = (http_send E req, s\<lparr>sent := sent s @ [req]\<rparr>)"

section \<open>app.py\<close>

definition DMT_API_BASE :: string where
  "DMT_API_BASE = ''http://localhost:8181/api/v1''"

definition USER_AGENT :: string where
  "USER_AGENT = ''DMT-app/1.0''"

definition opt_json :: "string option \<Rightarrow> json" where
  "opt_json x = (case x of None \<Rightarrow> JNull | Some v \<Rightarrow> JStr v)"

text \<open>
  \<^verbatim>\<open>get_token(username, password)\<close>. The arguments are what \<^verbatim>\<open>os.getenv\<close> returned, so
  either may be \<^verbatim>\<open>None\<close>.
\<close>

definition get_token :: "env \<Rightarrow> string option \<Rightarrow> string option \<Rightarrow> state \<Rightarrow> (py_exception + json) \<times> state" where
  "get_token E username password s =
     (let url = DMT_API_BASE @ ''/authorize'';
          payload = JDict [(''username'', opt_json username), (''password'', opt_json password)];
          headers = [(''User-Agent'', USER_AGENT), (''Accept'', ''application/json'')];
          (sent_result, s') =
            client_send E \<lparr>req_method = POST, req_url = url, req_headers = headers,
                           req_json = Some payload, req_timeout = 30\<rparr> s
      in (except_return_None
            (bind_exc sent_result (\<lambda>response.
             bind_exc (raise_for_status response) (\<lambda>response.
             bind_exc (response_json response) (\<lambda>data.
             py_getitem data ''token'')))),
          s'))"

definition authorize :: "env \<Rightarrow> state \<Rightarrow> (py_exception + unit) \<times> state" where
  "authorize E s =
     (case get_token E (getenv E ''DMT_username'') (getenv E ''DMT_password'') s of
        (Inl e, s') \<Rightarrow> (Inl e, s')
      | (Inr t, s') \<Rightarrow> (Inr (), s'\<lparr>token := t\<rparr>))"

definition make_dmt_get_request :: "env \<Rightarrow> string \<Rightarrow> state \<Rightarrow> (py_exception + json) \<times> state" where
  "make_dmt_get_request E url s =
     (let headers = [(''User-Agent'', USER_AGENT), (''Accept'', ''application/json''),
                     (''Authorization'', ''Bearer '' @ py_str E (token s))];
          (sent_result, s') =
            client_send E \<lparr>req_method = GET, req_url = url, req_headers = headers,
                           req_json = None, req_timeout = 30\<rparr> s
      in (except_return_None
            (bind_exc sent_result (\<lambda>response.
             bind_exc (raise_for_status response) (\<lambda>response.
             response_json response))),
          s'))"

definition make_dmt_post_request :: "env \<Rightarrow> string \<Rightarrow> json \<Rightarrow> state \<Rightarrow> (py_exception + json) \<times> state" where
  "make_dmt_post_request E url json s =
     (let headers = [(''User-Agent'', USER_AGENT), (''Accept'', ''application/json''),
                     (''Authorization'', ''Bearer '' @ py_str E (token s))];
          (sent_result, s') =
            client_send E \<lparr>req_method = POST, req_url = url, req_headers = headers,
                           req_json = Some json, req_timeout = 30\<rparr> s
      in (except_return_None
            (bind_exc sent_result (\<lambda>response.
             bind_exc (raise_for_status response) (\<lambda>response.
             response_json response))),
          s'))"

text \<open>The f-string of \<^verbatim>\<open>get_devices\<close>; the four subscripts are evaluated in this order.\<close>

definition device_text :: "env \<Rightarrow> json \<Rightarrow> py_exception + string" where
  "device_text E item =
     bind_exc (py_getitem item ''connectionStatus'') (\<lambda>connectionStatus.
     bind_exc (py_getitem item ''hostname'') (\<lambda>hostname.
     bind_exc (py_getitem item ''guid'') (\<lambda>guid.
     bind_exc (py_getitem item ''friendlyName'') (\<lambda>friendlyName.
     Inr (''\<newline>Connection Status: '' @ py_str E connectionStatus @
          ''\<newline>Hostname: '' @ py_str E hostname @
          ''\<newline>GUID: '' @ py_str E guid @
          ''\<newline>Friendly Name: '' @ py_str E friendlyName @ ''\<newline>'')))))"

text \<open>The \<^verbatim>\<open>for item in data\<close> loop; \<open>devices\<close> is the list built so far.\<close>

fun devices_loop :: "env \<Rightarrow> json list \<Rightarrow> string list \<Rightarrow> py_exception + string list" where
  "devices_loop E [] devices = Inr devices"
| "devices_loop E (item # items) devices =
     (case device_text E item of
        Inl e \<Rightarrow> Inl e
      | Inr device \<Rightarrow> devices_loop E items (devices @ [device]))"

definition is_empty_list :: "json \<Rightarrow> bool" where
  "is_empty_list data = (case data of JList xs \<Rightarrow> length xs < 1 | _ \<Rightarrow> False)"

definition get_devices :: "env \<Rightarrow> int \<Rightarrow> state \<Rightarrow> (py_exception + string) \<times> state" where
  "get_devices E status s =
     (let url = DMT_API_BASE @ ''/devices?status='' @ show_int status
      in case make_dmt_get_request E url s of
           (Inl e, s') \<Rightarrow> (Inl e, s')
         | (Inr data, s') \<Rightarrow>
             (if \<not> py_truthy data then Inr ''Unable to fetch devices.''
              else if is_empty_list data then Inr ''No device.''
              else bind_exc (py_iter data) (\<lambda>items.
                   bind_exc (devices_loop E items []) (\<lambda>devices.
                   Inr (py_join ''\<newline>---\<newline>'' devices))),
              s'))"

text \<open>The \<^verbatim>\<open>match\<close> statement of \<^verbatim>\<open>get_power_state\<close>: literal patterns compare with \<^verbatim>\<open>==\<close>.\<close>

definition power_state_label :: "json \<Rightarrow> string" where
  "power_state_label v =
     (if py_eq_int v 2 then ''On''
      else if py_eq_int v 3 then ''Sleep - Light''
      else if py_eq_int v 4 then ''Sleep - Deep''
      else if py_eq_int v 6 then ''Off - Hard''
      else if py_eq_int v 7 then ''Hibernate (Off - Soft)''
      else if py_eq_int v 8 then ''Off - Soft''
      else if py_eq_int v 9 then ''Power Cycle (Off-Hard)''
      else if py_eq_int v 13 then ''Off - Hard Graceful''
      else ''Unknown'')"

definition get_power_state :: "env \<Rightarrow> string \<Rightarrow> state \<Rightarrow> (py_exception + string) \<times> state" where
  "get_power_state E guid s =
     (let url = DMT_API_BASE @ ''/amt/power/state/'' @ guid
      in case make_dmt_get_request E url s of
           (Inl e, s') \<Rightarrow> (Inl e, s')
         | (Inr data, s') \<Rightarrow>
             (if \<not> py_truthy data then Inr ''Unable to get power state of device.''
              else bind_exc (py_getitem data ''powerstate'') (\<lambda>powerstate.
                   Inr (''Power State: '' @ power_state_label powerstate)),
              s'))"

definition do_power_action :: "env \<Rightarrow> string \<Rightarrow> int \<Rightarrow> string \<Rightarrow> state \<Rightarrow> (py_exception + string) \<times> state" where
  "do_power_action E guid action useSOL s =
     (let url = DMT_API_BASE @ ''/amt/power/action/'' @ guid;
          payload = JDict [(''action'', JInt action), (''useSOL'', JStr useSOL)]
      in case make_dmt_post_request E url payload s of
           (Inl e, s') \<Rightarrow> (Inl e, s')
         | (Inr data, s') \<Rightarrow>
             (if \<not> py_truthy data then Inr ''Unable to perform power action on the device.''
              else bind_exc (py_get data ''ReturnValue'') (\<lambda>rv.
                   if rv = JNull then Inr ''Unable to perform power action on the device.''
                   else bind_exc (py_getitem data ''ReturnValue'') (\<lambda>rv'.
                        if \<not> py_eq_int rv' 0 then Inr ''Failed to perform power action.''
                        else Inr ''Success to perform power action.'')),
              s'))"

section \<open>Definitions used to state the properties\<close>

text \<open>
  A stub environment: every request gets the same outcome. \<open>ok_json v\<close> is a 200
  response whose body parses to \<open>v\<close>. The stub's \<open>py_repr\<close> is a placeholder, not
  Python's \<^verbatim>\<open>repr\<close>: the examples below format only \<^verbatim>\<open>None\<close>, integers and strings,
  for which \<open>py_str\<close> does not call it.
\<close>

definition stub :: "py_exception + http_response \<Rightarrow> env" where
  "stub outcome = \<lparr>http_send = (\<lambda>req. outcome), py_repr = (\<lambda>v. []), getenv = (\<lambda>name. None)\<rparr>"

definition ok_json :: "json \<Rightarrow> py_exception + http_response" where
  "ok_json v = Inr \<lparr>status_code = 200, json_body = Some v\<rparr>"

definition s0 :: state where
  "s0 = \<lparr>token = JStr ''t0k3n'', sent = []\<rparr>"

text \<open>
  A device object of the spec's data model: a JSON object that has the four fields.
  \<open>field d key\<close> reads one of them.
\<close>

definition has_key :: "json \<Rightarrow> string \<Rightarrow> bool" where
  "has_key d key = (case d of JDict kvs \<Rightarrow> map_of kvs key \<noteq> None | _ \<Rightarrow> False)"

definition is_device_object :: "json \<Rightarrow> bool" where
  "is_device_object d =
     (has_key d ''connectionStatus'' \<and> has_key d ''hostname'' \<and> has_key d ''guid''
      \<and> has_key d ''friendlyName'')"

definition field :: "json \<Rightarrow> string \<Rightarrow> json" where
  "field d key =
     (case d of JDict kvs \<Rightarrow> (case map_of kvs key of None \<Rightarrow> JNull | Some v \<Rightarrow> v) | _ \<Rightarrow> JNull)"

text \<open>
  The spec's formatted block of one device: connection status, hostname, GUID and
  friendly name, one per line.
\<close>

definition spec_device_block :: "env \<Rightarrow> json \<Rightarrow> string" where
  "spec_device_block E d =
     ''\<newline>Connection Status: '' @ py_str E (field d ''connectionStatus'') @
     ''\<newline>Hostname: '' @ py_str E (field d ''hostname'') @
     ''\<newline>GUID: '' @ py_str E (field d ''guid'') @
     ''\<newline>Friendly Name: '' @ py_str E (field d ''friendlyName'') @ ''\<newline>''"

text \<open>
  The spec's dispatcher contract (section 4.2): the parsed body on a 2xx status, and
  absence on a transport error, a timeout, another status or a body that is not JSON.
\<close>

definition spec_dispatch_result :: "py_exception + http_response \<Rightarrow> json" where
  "spec_dispatch_result outcome =
     (case outcome of
        Inl e \<Rightarrow> JNull
      | Inr response \<Rightarrow>
          if 200 \<le> status_code response \<and> status_code response \<le> 299
          then (case json_body response of None \<Rightarrow> JNull | Some v \<Rightarrow> v)
          else JNull)"

section \<open>Helper lemmas\<close>

lemmas dispatch_defs = make_dmt_get_request_def make_dmt_post_request_def client_send_def
  except_return_None_def bind_exc_def raise_for_status_def response_json_def Let_def

lemma get_result_cases:
  "fst (make_dmt_get_request E url s) =
     Inr (spec_dispatch_result (http_send E \<lparr>req_method = GET, req_url = url,
                 req_headers = [(''User-Agent'', USER_AGENT), (''Accept'', ''application/json''),
                                (''Authorization'', ''Bearer '' @ py_str E (token s))],
                 req_json = None, req_timeout = 30\<rparr>))"
  by (simp add: dispatch_defs spec_dispatch_result_def split: sum.splits option.splits)

lemma post_result_cases:
  "fst (make_dmt_post_request E url payload s) =
     Inr (spec_dispatch_result (http_send E \<lparr>req_method = POST, req_url = url,
                 req_headers = [(''User-Agent'', USER_AGENT), (''Accept'', ''application/json''),
                                (''Authorization'', ''Bearer '' @ py_str E (token s))],
                 req_json = Some payload, req_timeout = 30\<rparr>))"
  by (simp add: dispatch_defs spec_dispatch_result_def split: sum.splits option.splits)

lemma get_state:
  "snd (make_dmt_get_request E url s) =
     s\<lparr>sent := sent s @ [\<lparr>req_method = GET, req_url = url,
                 req_headers = [(''User-Agent'', USER_AGENT), (''Accept'', ''application/json''),
                                (''Authorization'', ''Bearer '' @ py_str E (token s))],
                 req_json = None, req_timeout = 30\<rparr>]\<rparr>"
  by (simp add: dispatch_defs)

lemma post_state:
  "snd (make_dmt_post_request E url payload s) =
     s\<lparr>sent := sent s @ [\<lparr>req_method = POST, req_url = url,
                 req_headers = [(''User-Agent'', USER_AGENT), (''Accept'', ''application/json''),
                                (''Authorization'', ''Bearer '' @ py_str E (token s))],
                 req_json = Some payload, req_timeout = 30\<rparr>]\<rparr>"
  by (simp add: dispatch_defs)

lemma pair_fstI: "fst p = a \<Longrightarrow> p = (a, snd p)"
  by (simp add: prod_eq_iff)

lemma stub_get_ok:
  "make_dmt_get_request (stub (ok_json v)) url s
     = (Inr v, snd (make_dmt_get_request (stub (ok_json v)) url s))"
  by (rule pair_fstI) (simp add: get_result_cases spec_dispatch_result_def stub_def ok_json_def)

lemma stub_post_ok:
  "make_dmt_post_request (stub (ok_json v)) url payload s
     = (Inr v, snd (make_dmt_post_request (stub (ok_json v)) url payload s))"
  by (rule pair_fstI) (simp add: post_result_cases spec_dispatch_result_def stub_def ok_json_def)

lemma stub_post_raise:
  "make_dmt_post_request (stub (Inl e)) url payload s
     = (Inr JNull, snd (make_dmt_post_request (stub (Inl e)) url payload s))"
  by (rule pair_fstI) (simp add: post_result_cases spec_dispatch_result_def stub_def)

lemma device_text_of_object:
  "is_device_object d \<Longrightarrow> device_text E d = Inr (spec_device_block E d)"
  by (cases d)
     (auto simp add: is_device_object_def has_key_def device_text_def bind_exc_def
        spec_device_block_def field_def)

lemma devices_loop_objects:
  "list_all is_device_object ds \<Longrightarrow>
   devices_loop E ds devices = Inr (devices @ map (spec_device_block E) ds)"
  by (induction ds arbitrary: devices) (simp_all add: device_text_of_object)

text \<open>
  \<^verbatim>\<open>sep.join\<close> of a non-empty list, written without recursion: the first element, then
  the separator before each further element.
\<close>

lemma py_join_concat:
  "xs \<noteq> [] \<Longrightarrow> py_join sep xs = hd xs @ concat (map (\<lambda>x. sep @ x) (tl xs))"
  by (induction sep xs rule: py_join.induct) simp_all

lemma blocks_are_map:
  "length blocks = length ds \<Longrightarrow> \<forall>i<length ds. blocks ! i = f (ds ! i) \<Longrightarrow> blocks = map f ds"
  by (rule nth_equalityI) simp_all

lemma getitem_Inl_field: "py_getitem d key = Inl e \<Longrightarrow> field d key = JNull"
  by (cases d) (simp_all add: field_def split: option.splits)

lemma getitem_Inr_field: "py_getitem d key = Inr v \<Longrightarrow> field d key = v"
  by (cases d) (simp_all add: field_def split: option.splits)

text \<open>
  The second test of \<^verbatim>\<open>get_devices\<close> holds only for a value on which the first test
  has already returned.
\<close>

lemma empty_list_is_falsy: "is_empty_list data \<Longrightarrow> \<not> py_truthy data"
  by (cases data) (simp_all add: is_empty_list_def)

section \<open>Tool contracts\<close>

text \<open>
  C1 (the three tools always return text and never raise, also on a 2xx body that lacks
  an expected field). The code raises in each tool: \<^verbatim>\<open>get_power_state\<close> on a body
  without \<^verbatim>\<open>powerstate\<close> (KeyError), \<^verbatim>\<open>get_devices\<close> on a device without
  \<^verbatim>\<open>connectionStatus\<close> (KeyError), \<^verbatim>\<open>do_power_action\<close> on a body that is a non-empty
  array (AttributeError from \<^verbatim>\<open>data.get\<close>).
\<close>

theorem tools_raise_on_malformed_body:
  "fst (get_power_state (stub (ok_json (JDict [(''error'', JStr ''not found'')]))) ''abc-123'' s0)
     = Inl (KeyError ''powerstate'')
   \<and> fst (get_devices (stub (ok_json (JList [JDict [(''hostname'', JStr ''pc-1'')]]))) 1 s0)
     = Inl (KeyError ''connectionStatus'')
   \<and> fst (do_power_action (stub (ok_json (JList [JInt 1]))) ''abc-123'' 10 ''false'' s0)
     = Inl AttributeError"
  by (simp add: get_power_state_def get_devices_def do_power_action_def dispatch_defs
        stub_def ok_json_def is_empty_list_def device_text_def)

text \<open>
  C2: when the dispatcher's result is an object whose \<^verbatim>\<open>powerstate\<close> is the integer
  \<open>c\<close>, \<^verbatim>\<open>get_power_state\<close> returns \<^verbatim>\<open>Power State: \<close> followed by the label of \<open>c\<close>
  in the table, and by \<^verbatim>\<open>Unknown\<close> for every integer outside the table.
\<close>

theorem get_power_state_label:
  assumes "make_dmt_get_request E (DMT_API_BASE @ ''/amt/power/state/'' @ guid) s
             = (Inr (JDict kvs), s')"
    and "map_of kvs ''powerstate'' = Some (JInt c)"
  shows "get_power_state E guid s =
    (Inr (''Power State: '' @
       (if c = 2 then ''On''
        else if c = 3 then ''Sleep - Light''
        else if c = 4 then ''Sleep - Deep''
        else if c = 6 then ''Off - Hard''
        else if c = 7 then ''Hibernate (Off - Soft)''
        else if c = 8 then ''Off - Soft''
        else if c = 9 then ''Power Cycle (Off-Hard)''
        else if c = 13 then ''Off - Hard Graceful''
        else ''Unknown'')), s')"
proof -
  from assms(2) have ne: "kvs \<noteq> []" by auto
  show ?thesis
    using assms ne
    by (simp add: get_power_state_def Let_def bind_exc_def power_state_label_def)
qed

theorem get_power_state_label_witness:
  "fst (get_power_state (stub (ok_json (JDict [(''powerstate'', JInt 8)]))) ''abc-123'' s0)
     = Inr ''Power State: Off - Soft''
   \<and> fst (get_power_state (stub (ok_json (JDict [(''powerstate'', JInt 5)]))) ''abc-123'' s0)
     = Inr ''Power State: Unknown''"
proof -
  have h: "map_of [(''powerstate'', JInt c)] ''powerstate'' = Some (JInt c)" for c
    by simp
  show ?thesis
    using get_power_state_label [OF stub_get_ok h, of 8 "''abc-123''" s0]
      get_power_state_label [OF stub_get_ok h, of 5 "''abc-123''" s0]
    by simp
qed

text \<open>
  C3: on a dispatcher result that is absent or an object without \<^verbatim>\<open>ReturnValue\<close>,
  \<^verbatim>\<open>do_power_action\<close> returns the "unable to perform" string; with \<^verbatim>\<open>ReturnValue\<close> the
  integer 0 the success string; with any other integer the failure string.
\<close>

theorem do_power_action_result:
  assumes "make_dmt_post_request E (DMT_API_BASE @ ''/amt/power/action/'' @ guid)
             (JDict [(''action'', JInt action), (''useSOL'', JStr useSOL)]) s = (Inr data, s')"
  shows "(data = JNull \<longrightarrow>
            do_power_action E guid action useSOL s
              = (Inr ''Unable to perform power action on the device.'', s'))
       \<and> (\<forall>kvs. data = JDict kvs \<and> map_of kvs ''ReturnValue'' = None \<longrightarrow>
            do_power_action E guid action useSOL s
              = (Inr ''Unable to perform power action on the device.'', s'))
       \<and> (\<forall>kvs. data = JDict kvs \<and> map_of kvs ''ReturnValue'' = Some (JInt 0) \<longrightarrow>
            do_power_action E guid action useSOL s
              = (Inr ''Success to perform power action.'', s'))
       \<and> (\<forall>kvs n. data = JDict kvs \<and> map_of kvs ''ReturnValue'' = Some (JInt n) \<and> n \<noteq> 0 \<longrightarrow>
            do_power_action E guid action useSOL s
              = (Inr ''Failed to perform power action.'', s'))"
proof -
  have ne: "kvs \<noteq> []" if "map_of kvs ''ReturnValue'' = Some v"
    for kvs :: "(string \<times> json) list" and v
    using that by auto
  show ?thesis
    using assms
    by (auto simp add: do_power_action_def Let_def bind_exc_def dest: ne)
qed

theorem do_power_action_result_witness:
  "fst (do_power_action (stub (Inl TimeoutException)) ''abc-123'' 10 ''false'' s0)
     = Inr ''Unable to perform power action on the device.''
   \<and> fst (do_power_action (stub (ok_json (JDict [(''Body'', JStr ''x'')]))) ''abc-123'' 10 ''false'' s0)
     = Inr ''Unable to perform power action on the device.''
   \<and> fst (do_power_action (stub (ok_json (JDict [(''ReturnValue'', JInt 0)]))) ''abc-123'' 10 ''false'' s0)
     = Inr ''Success to perform power action.''
   \<and> fst (do_power_action (stub (ok_json (JDict [(''ReturnValue'', JInt 5)]))) ''abc-123'' 10 ''false'' s0)
     = Inr ''Failed to perform power action.''"
  using do_power_action_result [OF stub_post_raise, of TimeoutException "''abc-123''" 10 "''false''" s0]
    do_power_action_result [OF stub_post_ok, of "JDict [(''Body'', JStr ''x'')]" "''abc-123''" 10 "''false''" s0]
    do_power_action_result [OF stub_post_ok, of "JDict [(''ReturnValue'', JInt 0)]" "''abc-123''" 10 "''false''" s0]
    do_power_action_result [OF stub_post_ok, of "JDict [(''ReturnValue'', JInt 5)]" "''abc-123''" 10 "''false''" s0]
  by simp

text \<open>
  C4 (an empty array gives the "no device" message, distinct from "unable to fetch").
  The code returns \<^verbatim>\<open>Unable to fetch devices.\<close> on an empty array, the same text as
  on a transport error: \<^verbatim>\<open>not data\<close> is true of \<^verbatim>\<open>[]\<close>, so the test for an empty list
  after it is never reached with one.
\<close>

theorem get_devices_empty_array:
  "fst (get_devices (stub (ok_json (JList []))) 1 s0) = Inr ''Unable to fetch devices.''
   \<and> fst (get_devices (stub (Inl TransportError)) 1 s0) = Inr ''Unable to fetch devices.''"
  by (simp add: get_devices_def dispatch_defs stub_def ok_json_def is_empty_list_def)

text \<open>
  C5: on a dispatcher result that is an array of N device objects, N at least 1, the
  output of \<^verbatim>\<open>get_devices\<close> is made of exactly N blocks: block number i is the
  formatted block of device number i of the array, and the output is the first block
  followed, for each further block in turn, by the separator and that block.
\<close>

theorem get_devices_blocks:
  assumes "make_dmt_get_request E (DMT_API_BASE @ ''/devices?status='' @ show_int status) s
             = (Inr (JList ds), s')"
    and "ds \<noteq> []"
    and "list_all is_device_object ds"
  shows "\<exists>blocks.
           length blocks = length ds
         \<and> (\<forall>i<length ds. blocks ! i = spec_device_block E (ds ! i))
         \<and> get_devices E status s
             = (Inr (hd blocks @ concat (map (\<lambda>block. ''\<newline>---\<newline>'' @ block) (tl blocks))), s')"
proof -
  let ?blocks = "map (spec_device_block E) ds"
  from assms(2) have ne: "?blocks \<noteq> []" by simp
  have "get_devices E status s = (Inr (py_join ''\<newline>---\<newline>'' ?blocks), s')"
    using assms
    by (simp add: get_devices_def Let_def bind_exc_def is_empty_list_def devices_loop_objects)
  then have "get_devices E status s
      = (Inr (hd ?blocks @ concat (map (\<lambda>block. ''\<newline>---\<newline>'' @ block) (tl ?blocks))), s')"
    by (simp only: py_join_concat [OF ne])
  moreover have "length ?blocks = length ds"
    by simp
  moreover have "\<forall>i<length ds. ?blocks ! i = spec_device_block E (ds ! i)"
    by simp
  ultimately show ?thesis
    by blast
qed

theorem get_devices_blocks_witness:
  "fst (get_devices
          (stub (ok_json (JList
             [JDict [(''guid'', JStr ''g-2''), (''hostname'', JStr ''zeta''),
                     (''friendlyName'', JStr ''Lab''), (''connectionStatus'', JInt 1)],
              JDict [(''connectionStatus'', JInt 0), (''hostname'', JStr ''alpha''),
                     (''guid'', JStr ''g-1''), (''friendlyName'', JNull)],
              JDict [(''connectionStatus'', JInt 1), (''hostname'', JStr ''mid''),
                     (''guid'', JStr ''g-3''), (''friendlyName'', JStr ''Desk'')]]))) 1 s0)
     = Inr (''\<newline>Connection Status: 1\<newline>Hostname: zeta\<newline>GUID: g-2\<newline>Friendly Name: Lab\<newline>'' @
            ''\<newline>---\<newline>'' @
            ''\<newline>Connection Status: 0\<newline>Hostname: alpha\<newline>GUID: g-1\<newline>Friendly Name: None\<newline>'' @
            ''\<newline>---\<newline>'' @
            ''\<newline>Connection Status: 1\<newline>Hostname: mid\<newline>GUID: g-3\<newline>Friendly Name: Desk\<newline>'')"
proof -
  let ?E = "stub (ok_json (JList
             [JDict [(''guid'', JStr ''g-2''), (''hostname'', JStr ''zeta''),
                     (''friendlyName'', JStr ''Lab''), (''connectionStatus'', JInt 1)],
              JDict [(''connectionStatus'', JInt 0), (''hostname'', JStr ''alpha''),
                     (''guid'', JStr ''g-1''), (''friendlyName'', JNull)],
              JDict [(''connectionStatus'', JInt 1), (''hostname'', JStr ''mid''),
                     (''guid'', JStr ''g-3''), (''friendlyName'', JStr ''Desk'')]]))"
  let ?ds = "[JDict [(''guid'', JStr ''g-2''), (''hostname'', JStr ''zeta''),
                     (''friendlyName'', JStr ''Lab''), (''connectionStatus'', JInt 1)],
              JDict [(''connectionStatus'', JInt 0), (''hostname'', JStr ''alpha''),
                     (''guid'', JStr ''g-1''), (''friendlyName'', JNull)],
              JDict [(''connectionStatus'', JInt 1), (''hostname'', JStr ''mid''),
                     (''guid'', JStr ''g-3''), (''friendlyName'', JStr ''Desk'')]]"
  have ne: "?ds \<noteq> []" by simp
  have objs: "list_all is_device_object ?ds"
    by (simp add: is_device_object_def has_key_def)
  from get_devices_blocks [OF stub_get_ok ne objs, of 1 s0]
  obtain blocks where len: "length blocks = length ?ds"
    and nth: "\<forall>i<length ?ds. blocks ! i = spec_device_block ?E (?ds ! i)"
    and out: "fst (get_devices ?E 1 s0)
                = Inr (hd blocks @ concat (map (\<lambda>block. ''\<newline>---\<newline>'' @ block) (tl blocks)))"
    by auto
  have "blocks = map (spec_device_block ?E) ?ds"
    by (rule blocks_are_map [OF len nth])
  with out show ?thesis
    by (simp add: spec_device_block_def field_def show_int_def show_nat.simps digit_char_def)
qed

section \<open>Request dispatcher and credential\<close>

text \<open>
  C6: each dispatcher sends one request and returns the parsed JSON body on a 2xx
  response and \<^verbatim>\<open>None\<close> on every failure (transport error, timeout, other status,
  body that is not JSON), whatever the cause; it never raises, and it leaves the
  stored credential as it was.
\<close>

theorem dispatchers_uniform_absence:
  "(case make_dmt_get_request E url s of
      (r, s') \<Rightarrow>
        token s' = token s \<and>
        (\<exists>req. sent s' = sent s @ [req] \<and> req_method req = GET \<and> req_url req = url \<and>
               r = Inr (spec_dispatch_result (http_send E req))))
   \<and> (case make_dmt_post_request E url payload s of
      (r, s') \<Rightarrow>
        token s' = token s \<and>
        (\<exists>req. sent s' = sent s @ [req] \<and> req_method req = POST \<and> req_url req = url \<and>
               req_json req = Some payload \<and>
               r = Inr (spec_dispatch_result (http_send E req))))"
  by (simp add: split_beta get_result_cases post_result_cases get_state post_state)

text \<open>
  C7: the request of each dispatcher carries exactly three headers: the fixed
  \<^verbatim>\<open>User-Agent\<close>, \<^verbatim>\<open>Accept: application/json\<close> and \<^verbatim>\<open>Authorization\<close>, whose value is
  \<^verbatim>\<open>Bearer\<close>, a space and a text that is the same for GET and POST; when the credential
  held at the call is the string \<open>t\<close>, that text is \<open>t\<close> itself.
\<close>

theorem dispatchers_attach_headers:
  "\<exists>v. sent (snd (make_dmt_get_request E url s))
           = sent s @ [\<lparr>req_method = GET, req_url = url,
                         req_headers = [(''User-Agent'', ''DMT-app/1.0''),
                                        (''Accept'', ''application/json''),
                                        (''Authorization'', ''Bearer '' @ v)],
                         req_json = None, req_timeout = 30\<rparr>]
      \<and> sent (snd (make_dmt_post_request E url payload s))
           = sent s @ [\<lparr>req_method = POST, req_url = url,
                         req_headers = [(''User-Agent'', ''DMT-app/1.0''),
                                        (''Accept'', ''application/json''),
                                        (''Authorization'', ''Bearer '' @ v)],
                         req_json = Some payload, req_timeout = 30\<rparr>]
      \<and> (\<forall>t. token s = JStr t \<longrightarrow> v = t)"
proof -
  have "\<forall>t. token s = JStr t \<longrightarrow> py_str E (token s) = t"
    by simp
  then show ?thesis
    by (simp add: get_state post_state USER_AGENT_def)
qed

theorem dispatchers_attach_headers_witness:
  "sent (snd (make_dmt_get_request (stub (Inl TimeoutException)) ''http://h/x'' s0))
     = [\<lparr>req_method = GET, req_url = ''http://h/x'',
          req_headers = [(''User-Agent'', ''DMT-app/1.0''),
                         (''Accept'', ''application/json''),
                         (''Authorization'', ''Bearer t0k3n'')],
          req_json = None, req_timeout = 30\<rparr>]
   \<and> sent (snd (make_dmt_post_request (stub (Inl TimeoutException)) ''http://h/x'' (JInt 7) s0))
     = [\<lparr>req_method = POST, req_url = ''http://h/x'',
          req_headers = [(''User-Agent'', ''DMT-app/1.0''),
                         (''Accept'', ''application/json''),
                         (''Authorization'', ''Bearer t0k3n'')],
          req_json = Some (JInt 7), req_timeout = 30\<rparr>]"
proof -
  have tok: "token s0 = JStr ''t0k3n''" and log: "sent s0 = []"
    by (simp_all add: s0_def)
  from dispatchers_attach_headers
         [of "stub (Inl TimeoutException)" "''http://h/x''" s0 "JInt 7"]
  obtain v where
    g: "sent (snd (make_dmt_get_request (stub (Inl TimeoutException)) ''http://h/x'' s0))
           = sent s0 @ [\<lparr>req_method = GET, req_url = ''http://h/x'',
                         req_headers = [(''User-Agent'', ''DMT-app/1.0''),
                                        (''Accept'', ''application/json''),
                                        (''Authorization'', ''Bearer '' @ v)],
                         req_json = None, req_timeout = 30\<rparr>]"
    and p: "sent (snd (make_dmt_post_request (stub (Inl TimeoutException)) ''http://h/x'' (JInt 7) s0))
           = sent s0 @ [\<lparr>req_method = POST, req_url = ''http://h/x'',
                         req_headers = [(''User-Agent'', ''DMT-app/1.0''),
                                        (''Accept'', ''application/json''),
                                        (''Authorization'', ''Bearer '' @ v)],
                         req_json = Some (JInt 7), req_timeout = 30\<rparr>]"
    and v: "\<forall>t. token s0 = JStr t \<longrightarrow> v = t"
    by blast
  from v tok have "v = ''t0k3n''" by simp
  with g p log show ?thesis by simp
qed

text \<open>
  C8: \<^verbatim>\<open>get_token\<close> posts the two credentials to \<^verbatim>\<open>/authorize\<close> and never raises: it
  returns \<^verbatim>\<open>None\<close> on a transport error, on a status outside 2xx, on a body that is
  not JSON and on a body without the \<^verbatim>\<open>token\<close> field, and the value of that field
  otherwise.
\<close>

theorem get_token_absent_or_token:
  "case get_token E username password s of
     (r, s') \<Rightarrow>
       \<exists>req. sent s' = sent s @ [req] \<and>
         req_method req = POST \<and> req_url req = DMT_API_BASE @ ''/authorize'' \<and>
         req_json req = Some (JDict [(''username'', opt_json username),
                                     (''password'', opt_json password)]) \<and>
         r = Inr (case http_send E req of
                    Inl e \<Rightarrow> JNull
                  | Inr response \<Rightarrow>
                      if 200 \<le> status_code response \<and> status_code response \<le> 299
                      then (case json_body response of
                              None \<Rightarrow> JNull
                            | Some data \<Rightarrow> field data ''token'')
                      else JNull)"
  by (auto simp add: get_token_def client_send_def Let_def bind_exc_def raise_for_status_def
        response_json_def except_return_None_def
        split: sum.splits option.splits
        dest: getitem_Inl_field getitem_Inr_field)

text \<open>
  C9: for every guid, action code and useSOL string, \<^verbatim>\<open>do_power_action\<close> sends one
  POST whose JSON payload holds the action integer and the useSOL string as given;
  no action code is rejected and useSOL stays a string.
\<close>

theorem do_power_action_payload:
  "\<exists>req. sent (snd (do_power_action E guid action useSOL s)) = sent s @ [req] \<and>
         req_method req = POST \<and>
         req_url req = DMT_API_BASE @ ''/amt/power/action/'' @ guid \<and>
         req_json req = Some (JDict [(''action'', JInt action), (''useSOL'', JStr useSOL)])"
proof -
  let ?u = "DMT_API_BASE @ ''/amt/power/action/'' @ guid"
  let ?p = "JDict [(''action'', JInt action), (''useSOL'', JStr useSOL)]"
  have "snd (do_power_action E guid action useSOL s) = snd (make_dmt_post_request E ?u ?p s)"
    by (simp add: do_power_action_def Let_def split: prod.splits sum.splits)
  then show ?thesis
    by (simp add: post_state)
qed

text \<open>
  C10: with an absent credential (\<^verbatim>\<open>None\<close>, as left by a failed startup), the request
  of each dispatcher still has an \<^verbatim>\<open>Authorization\<close> header, and its value is the text
  \<^verbatim>\<open>Bearer None\<close>.
\<close>

theorem absent_credential_bearer_none:
  assumes "token s = JNull"
  shows "(\<exists>req. sent (snd (make_dmt_get_request E url s)) = sent s @ [req] \<and>
               map_of (req_headers req) ''Authorization'' = Some ''Bearer None'')
       \<and> (\<exists>req. sent (snd (make_dmt_post_request E url payload s)) = sent s @ [req] \<and>
               map_of (req_headers req) ''Authorization'' = Some ''Bearer None'')"
  using assms by (simp add: get_state post_state)

theorem absent_credential_bearer_none_witness:
  "token (snd (authorize (stub (Inl TransportError)) s0)) = JNull
   \<and> (\<exists>req. sent (snd (make_dmt_get_request (stub (Inl TransportError)) ''u''
                        (snd (authorize (stub (Inl TransportError)) s0))))
               = sent (snd (authorize (stub (Inl TransportError)) s0)) @ [req] \<and>
             map_of (req_headers req) ''Authorization'' = Some ''Bearer None'')"
proof -
  have h: "token (snd (authorize (stub (Inl TransportError)) s0)) = JNull"
    by (simp add: authorize_def get_token_def client_send_def Let_def bind_exc_def
          except_return_None_def stub_def)
  show ?thesis
    using h absent_credential_bearer_none [OF h, of "stub (Inl TransportError)" "''u''"]
    by simp
qed

end
